theory Spec2Isabelle
  imports Main
begin

section \<open>Strings and messages\<close>

text \<open>
  A JavaScript string is a \<^typ>\<open>string\<close>; a character stands for a code unit below 256.
  \<open>String.prototype.trim\<close> removes white space and line terminators from both ends:
  TAB, LF, VT, FF, CR, SPACE and NBSP are the ones a character of this model can be.
\<close>

definition is_ws :: "char \<Rightarrow> bool" where
  "is_ws c = (c \<in> set [CHR 0x09, CHR 0x0A, CHR 0x0B, CHR 0x0C, CHR 0x0D, CHR 0x20, CHR 0xA0])"

definition trim :: "string \<Rightarrow> string" where
  "trim s = rev (dropWhile is_ws (rev (dropWhile is_ws s)))"

text \<open>
  \<open>ExtensionMessage\<close> (host to webview), with the fields this code writes and reads:
  \<open>type\<close>, \<open>contentId\<close> and \<open>success\<close>; the last two are optional in the type, and an absent
  field reads as \<open>undefined\<close> (\<open>None\<close>).
\<close>

record ext_message =
  msg_type :: string
  msg_contentId :: "string option"
  msg_success :: "bool option"

text \<open>The message \<open>refreshContent\<close> posts: \<open>{type: "contentRefreshed", contentId, success: true}\<close>.\<close>

definition contentRefreshed :: "string \<Rightarrow> bool \<Rightarrow> ext_message" where
  "contentRefreshed cid ok =
     \<lparr>msg_type = ''contentRefreshed'', msg_contentId = Some cid, msg_success = Some ok\<rparr>"

section \<open>The host side: the world ContentManager runs in\<close>

text \<open>
  An error value thrown by an awaited call: \<open>error.code\<close> (absent on an error that is not a
  system error) and \<open>error.message\<close>.
\<close>

record io_error =
  err_code :: "string option"
  err_message :: string

text \<open>
  Every call ContentManager makes outside itself: its three injected dependencies (\<open>log\<close>,
  \<open>postMessageToWebview\<close>, \<open>postStateToWebview\<close>), the settings directory provider, the file
  store (\<open>safeReadFile\<close>, \<open>fs.writeFile\<close>, \<open>fs.unlink\<close>) and the editor integration
  (\<open>openFile\<close>, \<open>vscode.commands.executeCommand\<close>).
\<close>

datatype effect =
    Log string
  | PostMessageToWebview ext_message
  | PostStateToWebview
  | GetSettingsDirectoryPath string
  | SafeReadFile string
  | WriteFile string string
  | Unlink string
  | OpenFile string bool
  | ExecuteCommand string

text \<open>
  The world: the text files of the file store by path (directories are not represented),
  the environment's answer to each call (\<open>fault\<close>: the error an awaited call is rejected
  with, if any; \<open>settingsDirectoryOf\<close>: the directory the provider returns for a storage
  root), and the trace of the calls made so far, oldest first.
\<close>

record world =
  files :: "string \<rightharpoonup> string"
  fault :: "effect \<Rightarrow> io_error option"
  settingsDirectoryOf :: "string \<Rightarrow> string"
  trace :: "effect list"

text \<open>An async function: it runs in a world and resolves (\<open>Inr\<close>) or rejects (\<open>Inl\<close>).\<close>

type_synonym 'a promise = "world \<Rightarrow> (io_error + 'a) \<times> world"

definition resolve :: "'a \<Rightarrow> 'a promise" where
  "resolve x w = (Inr x, w)"

definition reject :: "io_error \<Rightarrow> 'a promise" where
  "reject e w = (Inl e, w)"

text \<open>\<open>const x = await m; f x\<close>: a rejection of \<open>m\<close> skips \<open>f\<close> and rejects the caller.\<close>

definition await :: "'a promise \<Rightarrow> ('a \<Rightarrow> 'b promise) \<Rightarrow> 'b promise" where
  "await m f w = (case m w of (Inl e, w') \<Rightarrow> (Inl e, w') | (Inr x, w') \<Rightarrow> f x w')"

text \<open>\<open>try { await m } catch (error) { h error }\<close>.\<close>

definition try_catch :: "'a promise \<Rightarrow> (io_error \<Rightarrow> 'a promise) \<Rightarrow> 'a promise" where
  "try_catch m h w = (case m w of (Inl e, w') \<Rightarrow> h e w' | (Inr x, w') \<Rightarrow> (Inr x, w'))"

definition record_call :: "effect \<Rightarrow> world \<Rightarrow> world" where
  "record_call c w = w\<lparr>trace := trace w @ [c]\<rparr>"

text \<open>A call whose promise is awaited: recorded, then rejected if the environment says so.\<close>

definition awaited_call :: "effect \<Rightarrow> 'a promise \<Rightarrow> 'a promise" where
  "awaited_call c body w =
     (case fault w c of
        Some e \<Rightarrow> (Inl e, record_call c w)
      | None \<Rightarrow> body (record_call c w))"

subsection \<open>Injected dependencies\<close>

text \<open>\<open>this.log(message)\<close>: synchronous, returns nothing.\<close>

definition log :: "string \<Rightarrow> unit promise" where
  "log s w = (Inr (), record_call (Log s) w)"

text \<open>
  \<open>this.postMessageToWebview(message)\<close> as \<open>refreshContent\<close> calls it: the promise is not
  awaited, so the call is made and the caller goes on whatever becomes of the promise.
\<close>

definition postMessageToWebview :: "ext_message \<Rightarrow> unit promise" where
  "postMessageToWebview m w = (Inr (), record_call (PostMessageToWebview m) w)"

definition postStateToWebview :: "unit promise" where
  "postStateToWebview = awaited_call PostStateToWebview (resolve ())"

subsection \<open>External collaborators\<close>

text \<open>
  Modelled from the spec: \<open>getSettingsDirectoryPath\<close> of \<open>utils/storage\<close> is not among the
  sources. Section 6: "\<open>getSettingsDirectory(globalStorageRoot) -> path\<close>, asynchronous,
  assumed always succeeds or throws".
\<close>

definition getSettingsDirectoryPath :: "string \<Rightarrow> string promise" where
  "getSettingsDirectoryPath globalStoragePath w =
     awaited_call (GetSettingsDirectoryPath globalStoragePath)
       (resolve (settingsDirectoryOf w globalStoragePath)) w"

text \<open>
  Modelled from the spec: \<open>safeReadFile\<close> of \<open>utils/fs\<close> is not among the sources.
  Section 6: "\<open>readFile(path) -> text | absent\<close>"; section 4.1: the file's text content, and
  nothing for a file that is "absent/unreadable". It never rejects.
\<close>

definition safeReadFile :: "string \<Rightarrow> string option promise" where
  "safeReadFile filePath w =
     (Inr (case fault w (SafeReadFile filePath) of Some e \<Rightarrow> None | None \<Rightarrow> files w filePath),
      record_call (SafeReadFile filePath) w)"

text \<open>
  \<open>fs.writeFile(path, data, "utf-8")\<close> of Node (section 6: \<open>writeFile(path, text)\<close>): creates or
  overwrites the file.
\<close>

definition writeFile :: "string \<Rightarrow> string \<Rightarrow> unit promise" where
  "writeFile filePath data =
     awaited_call (WriteFile filePath data)
       (\<lambda>w. (Inr (), w\<lparr>files := (files w)(filePath \<mapsto> data)\<rparr>))"

text \<open>
  \<open>fs.unlink(path)\<close> of Node (section 6: "\<open>deleteFile(path)\<close> raising a distinguishable
  not-found condition"): an absent file is the error with code \<open>ENOENT\<close>.
\<close>

definition enoent :: "string \<Rightarrow> io_error" where
  "enoent filePath =
     \<lparr>err_code = Some ''ENOENT'',
      err_message = ''ENOENT: no such file or directory, unlink '' @ filePath\<rparr>"

definition unlink :: "string \<Rightarrow> unit promise" where
  "unlink filePath =
     awaited_call (Unlink filePath)
       (\<lambda>w. case files w filePath of
               None \<Rightarrow> (Inl (enoent filePath), w)
             | Some content \<Rightarrow> (Inr (), w\<lparr>files := (files w)(filePath := None)\<rparr>))"

text \<open>
  Modelled from the spec: \<open>openFile\<close> of \<open>integrations/misc/open-file\<close> is not among the
  sources. Sections 4.1 and 6: "\<open>openEditor(path, {createIfMissing})\<close>", which "ensures the
  file exists (creating an empty one if absent) and makes it the active editor view".
\<close>

definition openFile :: "string \<Rightarrow> bool \<Rightarrow> unit promise" where
  "openFile filePath create =
     awaited_call (OpenFile filePath create)
       (\<lambda>w. case files w filePath of
               Some content \<Rightarrow> (Inr (), w)
             | None \<Rightarrow>
                 if create then (Inr (), w\<lparr>files := (files w)(filePath \<mapsto> [])\<rparr>)
                 else (Inl (enoent filePath), w))"

definition executeCommand :: "string \<Rightarrow> unit promise" where
  "executeCommand command = awaited_call (ExecuteCommand command) (resolve ())"

text \<open>
  Modelled from the spec: the registry \<open>GlobalContentIds\<close> of \<open>shared/globalContentIds\<close> is not
  among the sources. Section 3 names its one key, "customInstructions".
\<close>

definition GlobalContentIds_customInstructions :: string where
  "GlobalContentIds_customInstructions = ''customInstructions''"

text \<open>
  Modelled from the spec: \<open>GlobalFileNames\<close> of \<open>shared/globalFileNames\<close> is not among the
  sources; section 6 says the files are "named by convention per identifier".
\<close>

definition GlobalFileNames_customInstructions :: string where
  "GlobalFileNames_customInstructions = ''custom_instructions.md''"

text \<open>\<open>path.join\<close> of two segments, on paths that need no normalisation.\<close>

definition path_join :: "string \<Rightarrow> string \<Rightarrow> string" where
  "path_join dir name = dir @ ''/'' @ name"

section \<open>ContentManager\<close>

text \<open>The instance: of its fields only \<open>globalStorageUriFsPath\<close> is data.\<close>

record ContentManager =
  globalStorageUriFsPath :: string

definition ensureSettingsDirectoryExists :: "ContentManager \<Rightarrow> string promise" where
  "ensureSettingsDirectoryExists this =
     (let globalStoragePath = globalStorageUriFsPath this
      in getSettingsDirectoryPath globalStoragePath)"

definition getContentPath :: "ContentManager \<Rightarrow> string \<Rightarrow> string option promise" where
  "getContentPath this contentId =
     await (ensureSettingsDirectoryExists this) (\<lambda>settingsDir.
       if contentId = GlobalContentIds_customInstructions
       then resolve (Some (path_join settingsDir GlobalFileNames_customInstructions))
       else await (log (''Unknown contentId: '' @ contentId)) (\<lambda>_. resolve None))"

text \<open>\<open>!filePath\<close> on a \<open>string | undefined\<close>: true of \<open>undefined\<close> and of the empty string.\<close>

definition falsy :: "string option \<Rightarrow> bool" where
  "falsy v = (case v of None \<Rightarrow> True | Some s \<Rightarrow> s = [])"

definition openContent :: "ContentManager \<Rightarrow> string \<Rightarrow> unit promise" where
  "openContent this contentId =
     await (getContentPath this contentId) (\<lambda>filePath.
       if falsy filePath
       then log (''File path could not be determined for contentId: '' @ contentId)
       else await (openFile (the filePath) True) (\<lambda>_.
              executeCommand ''workbench.action.files.revert''))"

definition updateContent :: "ContentManager \<Rightarrow> string \<Rightarrow> string option \<Rightarrow> unit promise" where
  "updateContent this contentId content =
     await (getContentPath this contentId) (\<lambda>filePath.
       if falsy filePath
       then log (''File path could not be determined for contentId: '' @ contentId)
       else
         await
           (if \<not> falsy content \<and> \<not> falsy (Some (trim (the content)))
            then await (writeFile (the filePath) (trim (the content))) (\<lambda>_.
                   log (''Updated content file: '' @ the filePath))
            else try_catch
                   (await (unlink (the filePath)) (\<lambda>_.
                      log (''Deleted content file: '' @ the filePath)))
                   (\<lambda>error.
                      if err_code error \<noteq> Some ''ENOENT''
                      then await (log (''Error deleting content file: '' @ err_message error))
                             (\<lambda>_. reject error)
                      else resolve ()))
           (\<lambda>_. postStateToWebview))"

definition readContent :: "ContentManager \<Rightarrow> string \<Rightarrow> string promise" where
  "readContent this contentId =
     await (getContentPath this contentId) (\<lambda>filePath.
       if \<not> falsy filePath
       then await (safeReadFile (the filePath)) (\<lambda>r.
              resolve (case r of Some text \<Rightarrow> text | None \<Rightarrow> []))
       else resolve [])"

definition refreshContent :: "ContentManager \<Rightarrow> string \<Rightarrow> unit promise" where
  "refreshContent this contentId =
     await (readContent this contentId) (\<lambda>content.
       await (updateContent this contentId (Some content)) (\<lambda>_.
         postMessageToWebview (contentRefreshed contentId True)))"

section \<open>The webview side: useRefreshableContent\<close>

text \<open>The message the hook posts to the host: \<open>{type: "refreshContent", contentId}\<close>.\<close>

record webview_message =
  wm_type :: string
  wm_contentId :: string

text \<open>
  One mounted instance of the hook and the part of the browser it touches: the prop
  \<open>contentId\<close> of the current render, the two \<open>useState\<close> cells, the \<open>handleMessage\<close> closure
  registered on \<open>window\<close> (known by the \<open>contentId\<close> it captured), the timers \<open>setTimeout\<close> has
  pending (identifier and deadline; the callback of each is \<open>setShowRefreshSuccess(false)\<close>,
  the only one the hook schedules), the clock in milliseconds, and what was sent to the host.
\<close>

record hook =
  contentId :: string
  isRefreshing :: bool
  showRefreshSuccess :: bool
  listener :: "string option"
  timers :: "(nat \<times> nat) list"
  nextTimer :: nat
  now :: nat
  posted :: "webview_message list"
  mounted :: bool

text \<open>A state setter of \<open>useState\<close>: React drops the update of a component that has unmounted.\<close>

definition setIsRefreshing :: "bool \<Rightarrow> hook \<Rightarrow> hook" where
  "setIsRefreshing b s = (if mounted s then s\<lparr>isRefreshing := b\<rparr> else s)"

definition setShowRefreshSuccess :: "bool \<Rightarrow> hook \<Rightarrow> hook" where
  "setShowRefreshSuccess b s = (if mounted s then s\<lparr>showRefreshSuccess := b\<rparr> else s)"

text \<open>\<open>setTimeout(callback, delay)\<close> returns the identifier of the timer it starts.\<close>

definition setTimeout :: "nat \<Rightarrow> hook \<Rightarrow> nat \<times> hook" where
  "setTimeout delay s =
     (nextTimer s,
      s\<lparr>timers := timers s @ [(nextTimer s, now s + delay)], nextTimer := Suc (nextTimer s)\<rparr>)"

definition clearTimeout :: "nat \<Rightarrow> hook \<Rightarrow> hook" where
  "clearTimeout timer s = s\<lparr>timers := filter (\<lambda>(i, deadline). i \<noteq> timer) (timers s)\<rparr>"

text \<open>
  \<open>handleMessage\<close>, closed over \<open>contentId\<close>. Its result is the new state and the value the
  function returns: on the success path the closure \<open>() => clearTimeout(timer)\<close>, given here
  by the timer it would clear, and \<open>undefined\<close> otherwise.
\<close>

definition handleMessage :: "string \<Rightarrow> ext_message \<Rightarrow> hook \<Rightarrow> hook \<times> nat option" where
  "handleMessage cid message s =
     (if msg_type message = ''contentRefreshed'' \<and> msg_contentId message = Some cid
      then
        (let s1 = setIsRefreshing False s in
         if msg_success message = Some True
         then
           (let s2 = setShowRefreshSuccess True s1;
                (timer, s3) = setTimeout 3000 s2
            in (s3, Some timer))
         else (s1, None))
      else (s, None))"

text \<open>
  A \<open>message\<close> event on \<open>window\<close>: the registered listener runs. An event target ignores
  what a listener returns, so the closure \<open>handleMessage\<close> returns is dropped uncalled.
\<close>

definition dispatchMessage :: "ext_message \<Rightarrow> hook \<Rightarrow> hook" where
  "dispatchMessage message s =
     (case listener s of
        None \<Rightarrow> s
      | Some cid \<Rightarrow> fst (handleMessage cid message s))"

text \<open>
  The body of \<open>useEffect\<close> (\<open>addEventListener\<close>) and the cleanup it returns
  (\<open>removeEventListener\<close>).
\<close>

definition effect_body :: "hook \<Rightarrow> hook" where
  "effect_body s = s\<lparr>listener := Some (contentId s)\<rparr>"

definition effect_cleanup :: "hook \<Rightarrow> hook" where
  "effect_cleanup s = s\<lparr>listener := None\<rparr>"

text \<open>The first render and the effect after it.\<close>

definition mount :: "string \<Rightarrow> hook" where
  "mount cid =
     effect_body
       \<lparr>contentId = cid, isRefreshing = False, showRefreshSuccess = False, listener = None,
        timers = [], nextTimer = 0, now = 0, posted = [], mounted = True\<rparr>"

text \<open>
  A later render with the prop \<open>cid\<close>: the effect depends on \<open>[contentId]\<close>, so when the prop
  has changed the cleanup of the last effect runs and then the effect again. The state
  cells live on.
\<close>

definition render :: "string \<Rightarrow> hook \<Rightarrow> hook" where
  "render cid s =
     (if \<not> mounted s \<or> cid = contentId s then s
      else effect_body ((effect_cleanup s)\<lparr>contentId := cid\<rparr>))"

definition unmount :: "hook \<Rightarrow> hook" where
  "unmount s = (effect_cleanup s)\<lparr>mounted := False\<rparr>"

text \<open>The action the hook exposes (\<open>useCallback\<close>).\<close>

definition hook_refreshContent :: "hook \<Rightarrow> hook" where
  "hook_refreshContent s =
     (let s1 = setIsRefreshing True s
      in s1\<lparr>posted := posted s1 @ [\<lparr>wm_type = ''refreshContent'', wm_contentId = contentId s\<rparr>]\<rparr>)"

text \<open>
  The clock moves on by \<open>d\<close> milliseconds: every pending timer whose deadline has come runs
  its callback, oldest first, and is pending no more.
\<close>

definition due :: "nat \<Rightarrow> nat \<times> nat \<Rightarrow> bool" where
  "due t = (\<lambda>(i, deadline). deadline \<le> t)"

definition advance :: "nat \<Rightarrow> hook \<Rightarrow> hook" where
  "advance d s =
     (let t = now s + d;
          fired = filter (due t) (timers s);
          s1 = s\<lparr>now := t, timers := filter (\<lambda>x. \<not> due t x) (timers s)\<rparr>
      in fold (\<lambda>x. setShowRefreshSuccess False) fired s1)"

text \<open>What can happen to a mounted instance, and a run of such events.\<close>

datatype event =
    Message ext_message
  | Render string
  | Unmount
  | Advance nat
  | RefreshAction

fun step :: "event \<Rightarrow> hook \<Rightarrow> hook" where
  "step (Message m) s = dispatchMessage m s"
| "step (Render cid) s = render cid s"
| "step Unmount s = unmount s"
| "step (Advance d) s = advance d s"
| "step RefreshAction s = hook_refreshContent s"

definition run :: "event list \<Rightarrow> hook \<Rightarrow> hook" where
  "run es s = fold step es s"

section \<open>Observations on a trace, and example worlds\<close>

text \<open>The messages posted to the webview, in order.\<close>

fun messages :: "effect list \<Rightarrow> ext_message list" where
  "messages [] = []"
| "messages (PostMessageToWebview m # tr) = m # messages tr"
| "messages (c # tr) = messages tr"

text \<open>The number of full state pushes.\<close>

definition state_pushes :: "effect list \<Rightarrow> nat" where
  "state_pushes tr = count_list tr PostStateToWebview"

text \<open>The calls that can change the file system: a write, a delete, an open that may create.\<close>

fun is_mutation :: "effect \<Rightarrow> bool" where
  "is_mutation (WriteFile filePath data) = True"
| "is_mutation (Unlink filePath) = True"
| "is_mutation (OpenFile filePath create) = True"
| "is_mutation c = False"

definition mutations :: "effect list \<Rightarrow> effect list" where
  "mutations tr = filter is_mutation tr"

text \<open>The path \<open>getContentPath\<close> resolves \<open>customInstructions\<close> to.\<close>

definition resolved_path :: "ContentManager \<Rightarrow> world \<Rightarrow> string" where
  "resolved_path this w =
     path_join (settingsDirectoryOf w (globalStorageUriFsPath this))
       GlobalFileNames_customInstructions"

text \<open>The environment rejects none of the calls \<open>cs\<close>.\<close>

definition quiet :: "world \<Rightarrow> effect list \<Rightarrow> bool" where
  "quiet w cs = list_all (\<lambda>c. fault w c = None) cs"

text \<open>The content argument that takes \<open>updateContent\<close> to its delete branch.\<close>

definition blank :: "string option \<Rightarrow> bool" where
  "blank content = (case content of None \<Rightarrow> True | Some c \<Rightarrow> trim c = [])"

text \<open>A manager, a world that rejects nothing, and one where deleting is not permitted.\<close>

definition example_manager :: ContentManager where
  "example_manager = \<lparr>globalStorageUriFsPath = ''/storage''\<rparr>"

definition example_path :: string where
  "example_path = ''/storage/settings/custom_instructions.md''"

definition example_world :: "(string \<rightharpoonup> string) \<Rightarrow> world" where
  "example_world fs =
     \<lparr>files = fs, fault = (\<lambda>c. None),
      settingsDirectoryOf = (\<lambda>root. path_join root ''settings''), trace = []\<rparr>"

definition eacces :: io_error where
  "eacces = \<lparr>err_code = Some ''EACCES'', err_message = ''EACCES: permission denied''\<rparr>"

definition readonly_world :: "(string \<rightharpoonup> string) \<Rightarrow> world" where
  "readonly_world fs =
     (example_world fs)\<lparr>fault := (\<lambda>c. if c = Unlink example_path then Some eacces else None)\<rparr>"

text \<open>
  In every state a run reaches from \<open>mount\<close>, the registered listener is the closure of the
  current render, and there is none after the unmount.
\<close>

definition bound_to :: "string \<Rightarrow> hook \<Rightarrow> bool" where
  "bound_to cid s = (mounted s \<and> contentId s = cid \<and> listener s = Some cid)"

definition hook_inv :: "hook \<Rightarrow> bool" where
  "hook_inv s = (if mounted s then listener s = Some (contentId s) else listener s = None)"

section \<open>What a call of ContentManager does, case by case\<close>

text \<open>
  Each operation is unfolded once into the calls it makes and the result it gives, by the
  answer of the environment; the properties below are read off these equations.
\<close>

lemmas io_defs = resolve_def reject_def await_def try_catch_def record_call_def awaited_call_def
  log_def postMessageToWebview_def postStateToWebview_def getSettingsDirectoryPath_def
  safeReadFile_def writeFile_def unlink_def openFile_def executeCommand_def

lemma messages_append: "messages (xs @ ys) = messages xs @ messages ys"
  by (induction xs rule: messages.induct) simp_all

lemma blank_iff: "(\<not> falsy content \<and> \<not> falsy (Some (trim (the content)))) = (\<not> blank content)"
  by (cases content) (auto simp: blank_def falsy_def trim_def)

lemma falsy_resolved: "\<not> falsy (Some (resolved_path this w))"
  by (simp add: falsy_def resolved_path_def path_join_def)

lemma getContentPath_cases:
  "getContentPath this cid w =
     (case fault w (GetSettingsDirectoryPath (globalStorageUriFsPath this)) of
        Some e \<Rightarrow> (Inl e, w\<lparr>trace := trace w @ [GetSettingsDirectoryPath (globalStorageUriFsPath this)]\<rparr>)
      | None \<Rightarrow>
          if cid = GlobalContentIds_customInstructions
          then (Inr (Some (resolved_path this w)),
                w\<lparr>trace := trace w @ [GetSettingsDirectoryPath (globalStorageUriFsPath this)]\<rparr>)
          else (Inr None,
                w\<lparr>trace := trace w @ [GetSettingsDirectoryPath (globalStorageUriFsPath this),
                                        Log (''Unknown contentId: '' @ cid)]\<rparr>))"
  by (simp add: getContentPath_def ensureSettingsDirectoryExists_def io_defs resolved_path_def
      split: option.splits)

lemma updateContent_rejected_settings:
  assumes "fault w (GetSettingsDirectoryPath (globalStorageUriFsPath this)) = Some e"
  shows "updateContent this cid content w =
           (Inl e, w\<lparr>trace := trace w @ [GetSettingsDirectoryPath (globalStorageUriFsPath this)]\<rparr>)"
  using assms by (simp add: updateContent_def await_def getContentPath_cases)

lemma updateContent_unknown:
  assumes "cid \<noteq> GlobalContentIds_customInstructions"
      and "fault w (GetSettingsDirectoryPath (globalStorageUriFsPath this)) = None"
  shows "updateContent this cid content w =
           (Inr (), w\<lparr>trace := trace w @
              [GetSettingsDirectoryPath (globalStorageUriFsPath this),
               Log (''Unknown contentId: '' @ cid),
               Log (''File path could not be determined for contentId: '' @ cid)]\<rparr>)"
  using assms
  by (simp add: updateContent_def await_def getContentPath_cases falsy_def log_def record_call_def)

lemma updateContent_write:
  assumes "\<not> blank content"
      and "fault w (GetSettingsDirectoryPath (globalStorageUriFsPath this)) = None"
  shows "updateContent this GlobalContentIds_customInstructions content w =
           (let g = GetSettingsDirectoryPath (globalStorageUriFsPath this);
                p = resolved_path this w;
                t = trim (the content)
            in case fault w (WriteFile p t) of
                 Some e \<Rightarrow> (Inl e, w\<lparr>trace := trace w @ [g, WriteFile p t]\<rparr>)
               | None \<Rightarrow>
                   (case fault w PostStateToWebview of Some e \<Rightarrow> Inl e | None \<Rightarrow> Inr (),
                    w\<lparr>files := (files w)(p \<mapsto> t),
                      trace := trace w @ [g, WriteFile p t, Log (''Updated content file: '' @ p),
                                          PostStateToWebview]\<rparr>))"
  using assms falsy_resolved [of this w]
  by (simp add: updateContent_def await_def getContentPath_cases blank_iff Let_def
      writeFile_def awaited_call_def log_def record_call_def postStateToWebview_def resolve_def
      resolved_path_def split: option.splits)

lemma updateContent_delete:
  assumes "blank content"
      and "fault w (GetSettingsDirectoryPath (globalStorageUriFsPath this)) = None"
  shows "updateContent this GlobalContentIds_customInstructions content w =
           (let g = GetSettingsDirectoryPath (globalStorageUriFsPath this);
                p = resolved_path this w;
                push = (case fault w PostStateToWebview of Some e \<Rightarrow> Inl e | None \<Rightarrow> Inr ())
            in case fault w (Unlink p) of
                 Some e \<Rightarrow>
                   if err_code e \<noteq> Some ''ENOENT''
                   then (Inl e, w\<lparr>trace := trace w @
                           [g, Unlink p, Log (''Error deleting content file: '' @ err_message e)]\<rparr>)
                   else (push, w\<lparr>trace := trace w @ [g, Unlink p, PostStateToWebview]\<rparr>)
               | None \<Rightarrow>
                   (case files w p of
                      None \<Rightarrow> (push, w\<lparr>trace := trace w @ [g, Unlink p, PostStateToWebview]\<rparr>)
                    | Some old \<Rightarrow>
                        (push, w\<lparr>files := (files w)(p := None),
                                 trace := trace w @ [g, Unlink p, Log (''Deleted content file: '' @ p),
                                                     PostStateToWebview]\<rparr>)))"
  using assms falsy_resolved [of this w]
  by (simp add: updateContent_def await_def getContentPath_cases blank_iff Let_def try_catch_def
      unlink_def awaited_call_def log_def record_call_def postStateToWebview_def resolve_def
      reject_def enoent_def resolved_path_def split: option.splits)

lemma readContent_cases:
  "readContent this cid w =
     (let g = GetSettingsDirectoryPath (globalStorageUriFsPath this); p = resolved_path this w
      in case fault w g of
           Some e \<Rightarrow> (Inl e, w\<lparr>trace := trace w @ [g]\<rparr>)
         | None \<Rightarrow>
             if cid = GlobalContentIds_customInstructions
             then (Inr (case fault w (SafeReadFile p) of
                          Some e \<Rightarrow> []
                        | None \<Rightarrow> (case files w p of Some text \<Rightarrow> text | None \<Rightarrow> [])),
                   w\<lparr>trace := trace w @ [g, SafeReadFile p]\<rparr>)
             else (Inr [], w\<lparr>trace := trace w @ [g, Log (''Unknown contentId: '' @ cid)]\<rparr>))"
  using falsy_resolved [of this w]
  by (simp add: readContent_def await_def getContentPath_cases Let_def safeReadFile_def
      record_call_def resolve_def falsy_def resolved_path_def split: option.splits)

lemma updateContent_messages:
  "messages (trace (snd (updateContent this cid content w))) = messages (trace w)"
proof (cases "fault w (GetSettingsDirectoryPath (globalStorageUriFsPath this))")
  case (Some e)
  then show ?thesis by (simp add: updateContent_rejected_settings messages_append)
next
  case None
  show ?thesis
  proof (cases "cid = GlobalContentIds_customInstructions")
    case False
    with None show ?thesis by (simp add: updateContent_unknown messages_append)
  next
    case True
    show ?thesis
    proof (cases "blank content")
      case True
      with None \<open>cid = GlobalContentIds_customInstructions\<close> show ?thesis
        by (simp add: updateContent_delete Let_def messages_append split: option.splits)
    next
      case False
      with None \<open>cid = GlobalContentIds_customInstructions\<close> show ?thesis
        by (simp add: updateContent_write Let_def messages_append split: option.splits)
    qed
  qed
qed

lemma readContent_messages:
  "messages (trace (snd (readContent this cid w))) = messages (trace w)"
  by (simp add: readContent_cases Let_def messages_append split: option.splits)

lemma refreshContent_unfold:
  "refreshContent this cid w =
     (case readContent this cid w of
        (Inl e, w1) \<Rightarrow> (Inl e, w1)
      | (Inr content, w1) \<Rightarrow>
          (case updateContent this cid (Some content) w1 of
             (Inl e, w2) \<Rightarrow> (Inl e, w2)
           | (Inr u, w2) \<Rightarrow>
               (Inr (), w2\<lparr>trace := trace w2 @ [PostMessageToWebview (contentRefreshed cid True)]\<rparr>)))"
  by (simp add: refreshContent_def await_def postMessageToWebview_def record_call_def
      split: prod.splits sum.splits)

text \<open>
  C2: \<open>refreshContent\<close> never posts a \<open>contentRefreshed\<close> message with \<open>success: false\<close>.
  For every identifier and every world, the messages it posts are: exactly one, with
  \<open>success: true\<close>, when it completes; none when it is rejected. Its outcome is that of
  the read-then-update step, so an error raised there reaches the caller as it is.
\<close>

theorem refreshContent_never_reports_failure:
  "messages (trace (snd (refreshContent this cid w))) =
     messages (trace w) @
       (case fst (refreshContent this cid w) of
          Inr u \<Rightarrow> [contentRefreshed cid True]
        | Inl e \<Rightarrow> [])
   \<and> fst (refreshContent this cid w) =
       fst (await (readContent this cid) (\<lambda>content. updateContent this cid (Some content)) w)"
proof -
  obtain r1 w1 where r: "readContent this cid w = (r1, w1)"
    by (cases "readContent this cid w")
  have m1: "messages (trace w1) = messages (trace w)"
    using readContent_messages [of this cid w] r by simp
  show ?thesis
  proof (cases r1)
    case (Inl e)
    with r m1 show ?thesis by (simp add: refreshContent_unfold await_def)
  next
    case (Inr content)
    obtain r2 w2 where u: "updateContent this cid (Some content) w1 = (r2, w2)"
      by (cases "updateContent this cid (Some content) w1")
    have m2: "messages (trace w2) = messages (trace w1)"
      using updateContent_messages [of this cid "Some content" w1] u by simp
    from r Inr u m1 m2 show ?thesis
      by (cases r2) (simp_all add: refreshContent_unfold await_def messages_append)
  qed
qed

section \<open>The example worlds\<close>

text \<open>What the example manager and worlds evaluate to, and both outcomes for an unknown identifier.\<close>

lemma example_resolved: "resolved_path example_manager (example_world fs) = example_path"
  by (simp add: resolved_path_def example_manager_def example_world_def example_path_def
      path_join_def GlobalFileNames_customInstructions_def)

lemma example_resolved_readonly: "resolved_path example_manager (readonly_world fs) = example_path"
  by (simp add: resolved_path_def example_manager_def example_world_def example_path_def
      path_join_def GlobalFileNames_customInstructions_def readonly_world_def)

lemma example_quiet: "quiet (example_world fs) cs"
  by (simp add: quiet_def example_world_def list_all_iff)

lemma example_trace: "trace (example_world fs) = []"
  by (simp add: example_world_def)

lemma example_files: "files (example_world fs) = fs"
  by (simp add: example_world_def)

lemma example_fault: "fault (example_world fs) c = None"
  by (simp add: example_world_def)

lemma readonly_trace: "trace (readonly_world fs) = []"
  by (simp add: readonly_world_def example_world_def)

lemma readonly_fault:
  "fault (readonly_world fs) c = (if c = Unlink example_path then Some eacces else None)"
  by (simp add: readonly_world_def)

lemma openContent_unknown:
  assumes "cid \<noteq> GlobalContentIds_customInstructions"
  shows "openContent this cid w =
           (case fault w (GetSettingsDirectoryPath (globalStorageUriFsPath this)) of
              Some e \<Rightarrow>
                (Inl e, w\<lparr>trace := trace w @ [GetSettingsDirectoryPath (globalStorageUriFsPath this)]\<rparr>)
            | None \<Rightarrow>
                (Inr (), w\<lparr>trace := trace w @
                   [GetSettingsDirectoryPath (globalStorageUriFsPath this),
                    Log (''Unknown contentId: '' @ cid),
                    Log (''File path could not be determined for contentId: '' @ cid)]\<rparr>))"
  using assms
  by (simp add: openContent_def await_def getContentPath_cases falsy_def log_def record_call_def
      split: option.splits)

lemma updateContent_unknown_cases:
  assumes "cid \<noteq> GlobalContentIds_customInstructions"
  shows "updateContent this cid content w =
           (case fault w (GetSettingsDirectoryPath (globalStorageUriFsPath this)) of
              Some e \<Rightarrow>
                (Inl e, w\<lparr>trace := trace w @ [GetSettingsDirectoryPath (globalStorageUriFsPath this)]\<rparr>)
            | None \<Rightarrow>
                (Inr (), w\<lparr>trace := trace w @
                   [GetSettingsDirectoryPath (globalStorageUriFsPath this),
                    Log (''Unknown contentId: '' @ cid),
                    Log (''File path could not be determined for contentId: '' @ cid)]\<rparr>))"
  using assms
  by (simp add: updateContent_rejected_settings updateContent_unknown split: option.splits)

section \<open>Properties of ContentManager\<close>

text \<open>
  C3: when the file of \<open>customInstructions\<close> holds two spaces, "hello", two spaces and a
  line feed, and the environment rejects none of the four awaited calls, \<open>refreshContent\<close>
  completes, leaves the file holding exactly "hello", and posts
  \<open>{type: "contentRefreshed", contentId, success: true}\<close> as its last call.
\<close>

theorem refreshContent_normalises_hello:
  assumes "files w (resolved_path this w) = Some (''  hello  '' @ [CHR 0x0A])"
      and "quiet w [GetSettingsDirectoryPath (globalStorageUriFsPath this),
                    SafeReadFile (resolved_path this w),
                    WriteFile (resolved_path this w) ''hello'',
                    PostStateToWebview]"
  shows "fst (refreshContent this GlobalContentIds_customInstructions w) = Inr ()
       \<and> files (snd (refreshContent this GlobalContentIds_customInstructions w))
            (resolved_path this w) = Some ''hello''
       \<and> messages (trace (snd (refreshContent this GlobalContentIds_customInstructions w))) =
            messages (trace w) @ [contentRefreshed GlobalContentIds_customInstructions True]
       \<and> last (trace (snd (refreshContent this GlobalContentIds_customInstructions w))) =
            PostMessageToWebview
              \<lparr>msg_type = ''contentRefreshed'',
               msg_contentId = Some GlobalContentIds_customInstructions,
               msg_success = Some True\<rparr>"
  using assms
  by (simp add: refreshContent_unfold readContent_cases updateContent_write Let_def quiet_def
      blank_def trim_def is_ws_def resolved_path_def messages_append contentRefreshed_def)

theorem refreshContent_normalises_hello_witness:
  "fst (refreshContent example_manager ''customInstructions''
          (example_world [example_path \<mapsto> ''  hello  '' @ [CHR 0x0A]])) = Inr ()
   \<and> files (snd (refreshContent example_manager ''customInstructions''
          (example_world [example_path \<mapsto> ''  hello  '' @ [CHR 0x0A]]))) example_path = Some ''hello''
   \<and> messages (trace (snd (refreshContent example_manager ''customInstructions''
          (example_world [example_path \<mapsto> ''  hello  '' @ [CHR 0x0A]])))) =
       [\<lparr>msg_type = ''contentRefreshed'', msg_contentId = Some ''customInstructions'',
         msg_success = Some True\<rparr>]"
proof -
  let ?w = "example_world [example_path \<mapsto> ''  hello  '' @ [CHR 0x0A]]"
  have f: "files ?w (resolved_path example_manager ?w) = Some (''  hello  '' @ [CHR 0x0A])"
    by (simp add: example_resolved example_files)
  have q: "quiet ?w [GetSettingsDirectoryPath (globalStorageUriFsPath example_manager),
                    SafeReadFile (resolved_path example_manager ?w),
                    WriteFile (resolved_path example_manager ?w) ''hello'',
                    PostStateToWebview]"
    by (rule example_quiet)
  show ?thesis
    using refreshContent_normalises_hello [OF f q]
    by (simp add: example_resolved GlobalContentIds_customInstructions_def example_trace contentRefreshed_def)
qed

text \<open>
  C4, as stated, fails: a call of \<open>updateContent\<close> with an identifier outside the registry
  completes without a state push (the guard on the unresolved path returns first), and a call
  whose delete is rejected with \<open>EACCES\<close> raises before the push.
\<close>

theorem updateContent_state_push_counterexample:
  "fst (updateContent example_manager ''otherContent'' (Some ''text'') (example_world Map.empty)) = Inr ()
   \<and> state_pushes (trace (snd (updateContent example_manager ''otherContent'' (Some ''text'')
        (example_world Map.empty)))) = 0
   \<and> fst (updateContent example_manager ''customInstructions'' None
        (readonly_world [example_path \<mapsto> ''text''])) = Inl eacces
   \<and> state_pushes (trace (snd (updateContent example_manager ''customInstructions'' None
        (readonly_world [example_path \<mapsto> ''text''])))) = 0"
proof -
  have a: "''otherContent'' \<noteq> GlobalContentIds_customInstructions"
    by (simp add: GlobalContentIds_customInstructions_def)
  have b: "''customInstructions'' = GlobalContentIds_customInstructions"
    by (simp add: GlobalContentIds_customInstructions_def)
  have c: "err_code eacces \<noteq> Some ''ENOENT''"
    by (simp add: eacces_def)
  show ?thesis
    unfolding b using c
    by (simp add: updateContent_unknown_cases [OF a] example_fault example_trace
        updateContent_delete blank_def readonly_fault readonly_trace example_resolved_readonly
        state_pushes_def Let_def)
qed

text \<open>
  C4, amended: for \<open>customInstructions\<close> and every content argument, a call of \<open>updateContent\<close>
  that completes issues exactly one state push, on the write branch and on the delete branch;
  for an identifier outside the registry it issues none.
\<close>

theorem updateContent_state_push_once:
  "(cid = GlobalContentIds_customInstructions \<and> fst (updateContent this cid content w) = Inr ()
      \<longrightarrow> state_pushes (trace (snd (updateContent this cid content w))) =
            state_pushes (trace w) + 1)
   \<and> (cid \<noteq> GlobalContentIds_customInstructions
      \<longrightarrow> state_pushes (trace (snd (updateContent this cid content w))) =
            state_pushes (trace w))"
proof (intro conjI impI)
  assume "cid \<noteq> GlobalContentIds_customInstructions"
  then show "state_pushes (trace (snd (updateContent this cid content w))) = state_pushes (trace w)"
    by (simp add: updateContent_unknown_cases state_pushes_def split: option.splits)
next
  assume a: "cid = GlobalContentIds_customInstructions \<and> fst (updateContent this cid content w) = Inr ()"
  show "state_pushes (trace (snd (updateContent this cid content w))) = state_pushes (trace w) + 1"
  proof (cases "fault w (GetSettingsDirectoryPath (globalStorageUriFsPath this))")
    case (Some e)
    with a show ?thesis by (simp add: updateContent_rejected_settings)
  next
    case None
    show ?thesis
    proof (cases "blank content")
      case True
      with a None show ?thesis
        by (auto simp: updateContent_delete Let_def state_pushes_def split: option.splits if_splits)
    next
      case False
      with a None show ?thesis
        by (auto simp: updateContent_write Let_def state_pushes_def split: option.splits if_splits)
    qed
  qed
qed

theorem updateContent_state_push_once_witness:
  "fst (updateContent example_manager ''customInstructions'' (Some '' text '')
          (example_world Map.empty)) = Inr ()
   \<and> state_pushes (trace (snd (updateContent example_manager ''customInstructions'' (Some '' text '')
          (example_world Map.empty)))) = 1
   \<and> fst (updateContent example_manager ''customInstructions'' None
          (example_world [example_path \<mapsto> ''text''])) = Inr ()
   \<and> state_pushes (trace (snd (updateContent example_manager ''customInstructions'' None
          (example_world [example_path \<mapsto> ''text''])))) = 1
   \<and> ''otherContent'' \<noteq> GlobalContentIds_customInstructions
   \<and> state_pushes (trace (snd (updateContent example_manager ''otherContent'' (Some ''text'')
          (example_world Map.empty)))) = 0"
proof -
  have b: "''customInstructions'' = GlobalContentIds_customInstructions"
    by (simp add: GlobalContentIds_customInstructions_def)
  have a: "''otherContent'' \<noteq> GlobalContentIds_customInstructions"
    by (simp add: GlobalContentIds_customInstructions_def)
  have w: "fst (updateContent example_manager GlobalContentIds_customInstructions (Some '' text '')
          (example_world Map.empty)) = Inr ()"
    by (simp add: updateContent_write blank_def trim_def is_ws_def example_fault Let_def)
  have d: "fst (updateContent example_manager GlobalContentIds_customInstructions None
          (example_world [example_path \<mapsto> ''text''])) = Inr ()"
    by (simp add: updateContent_delete blank_def example_fault Let_def example_resolved
        example_files)
  show ?thesis
    unfolding b
    using w d a
      updateContent_state_push_once [of GlobalContentIds_customInstructions example_manager
        "Some '' text ''" "example_world Map.empty"]
      updateContent_state_push_once [of GlobalContentIds_customInstructions example_manager
        None "example_world [example_path \<mapsto> ''text'']"]
      updateContent_state_push_once [of "''otherContent''" example_manager
        "Some ''text''" "example_world Map.empty"]
    by (simp add: example_trace state_pushes_def)
qed

text \<open>
  C5: for an identifier outside the registry, \<open>readContent\<close> returns the empty string (once
  the settings directory provider, the one call it awaits, has answered), and neither
  \<open>updateContent\<close> nor \<open>openContent\<close> changes a file or makes a call that could: no write,
  no delete, no open-and-create. That part holds in every world.
\<close>

theorem unknown_id_is_inert:
  assumes "cid \<noteq> GlobalContentIds_customInstructions"
  shows "(quiet w [GetSettingsDirectoryPath (globalStorageUriFsPath this)]
            \<longrightarrow> fst (readContent this cid w) = Inr [])
       \<and> files (snd (readContent this cid w)) = files w
       \<and> files (snd (updateContent this cid content w)) = files w
       \<and> mutations (trace (snd (updateContent this cid content w))) = mutations (trace w)
       \<and> files (snd (openContent this cid w)) = files w
       \<and> mutations (trace (snd (openContent this cid w))) = mutations (trace w)"
  using assms
  by (simp add: readContent_cases updateContent_unknown_cases openContent_unknown quiet_def
      mutations_def Let_def split: option.splits)

theorem unknown_id_is_inert_witness:
  "''otherContent'' \<noteq> GlobalContentIds_customInstructions
   \<and> quiet (example_world [example_path \<mapsto> ''text''])
        [GetSettingsDirectoryPath (globalStorageUriFsPath example_manager)]
   \<and> fst (readContent example_manager ''otherContent''
        (example_world [example_path \<mapsto> ''text''])) = Inr []
   \<and> files (snd (updateContent example_manager ''otherContent'' None
        (example_world [example_path \<mapsto> ''text'']))) example_path = Some ''text''
   \<and> files (snd (openContent example_manager ''otherContent''
        (example_world [example_path \<mapsto> ''text'']))) = [example_path \<mapsto> ''text'']
   \<and> mutations (trace (snd (updateContent example_manager ''otherContent'' (Some ''new'')
        (example_world [example_path \<mapsto> ''text''])))) = []"
proof -
  have a: "''otherContent'' \<noteq> GlobalContentIds_customInstructions"
    by (simp add: GlobalContentIds_customInstructions_def)
  have q: "quiet (example_world [example_path \<mapsto> ''text''])
             [GetSettingsDirectoryPath (globalStorageUriFsPath example_manager)]"
    by (rule example_quiet)
  show ?thesis
    using a q
      unknown_id_is_inert [OF a, of "example_world [example_path \<mapsto> ''text'']" example_manager None]
      unknown_id_is_inert [OF a, of "example_world [example_path \<mapsto> ''text'']" example_manager
        "Some ''new''"]
    by (simp add: example_files example_trace mutations_def)
qed

text \<open>
  C8: round trip. For a content string \<open>c\<close> that is not blank, \<open>updateContent\<close> on
  \<open>customInstructions\<close> completes and a \<open>readContent\<close> after it returns \<open>trim c\<close>, when the
  environment rejects none of the calls made.
\<close>

theorem update_then_read_roundtrip:
  assumes "trim c \<noteq> []"
      and "quiet w [GetSettingsDirectoryPath (globalStorageUriFsPath this),
                    WriteFile (resolved_path this w) (trim c),
                    PostStateToWebview,
                    SafeReadFile (resolved_path this w)]"
  shows "fst (updateContent this GlobalContentIds_customInstructions (Some c) w) = Inr ()
       \<and> fst (readContent this GlobalContentIds_customInstructions
                (snd (updateContent this GlobalContentIds_customInstructions (Some c) w))) =
           Inr (trim c)"
  using assms
  by (simp add: updateContent_write readContent_cases blank_def quiet_def Let_def resolved_path_def)

theorem update_then_read_roundtrip_witness:
  "trim '' do this  '' \<noteq> []
   \<and> fst (updateContent example_manager ''customInstructions'' (Some '' do this  '')
        (example_world [example_path \<mapsto> ''old''])) = Inr ()
   \<and> fst (readContent example_manager ''customInstructions''
        (snd (updateContent example_manager ''customInstructions'' (Some '' do this  '')
           (example_world [example_path \<mapsto> ''old''])))) = Inr ''do this''"
proof -
  have b: "''customInstructions'' = GlobalContentIds_customInstructions"
    by (simp add: GlobalContentIds_customInstructions_def)
  have t: "trim '' do this  '' = ''do this''"
    by (simp add: trim_def is_ws_def)
  have n: "trim '' do this  '' \<noteq> []"
    by (simp add: t)
  have q: "quiet (example_world [example_path \<mapsto> ''old''])
             [GetSettingsDirectoryPath (globalStorageUriFsPath example_manager),
              WriteFile (resolved_path example_manager (example_world [example_path \<mapsto> ''old'']))
                (trim '' do this  ''),
              PostStateToWebview,
              SafeReadFile (resolved_path example_manager (example_world [example_path \<mapsto> ''old'']))]"
    by (rule example_quiet)
  show ?thesis
    unfolding b using update_then_read_roundtrip [OF n q] by (simp add: t)
qed

text \<open>
  C9: deleting twice. When the file store fails a delete only for a file that is not there
  (and the provider and the state push answer), \<open>updateContent\<close> with no content completes
  twice in a row, whether the file was there or not: the second call finds the file absent,
  the \<open>ENOENT\<close> of its \<open>unlink\<close> is swallowed, nothing is logged and no file changes.
\<close>

theorem delete_twice_never_raises:
  assumes "quiet w [GetSettingsDirectoryPath (globalStorageUriFsPath this),
                    Unlink (resolved_path this w),
                    PostStateToWebview]"
  shows "fst (updateContent this GlobalContentIds_customInstructions None w) = Inr ()
       \<and> fst (updateContent this GlobalContentIds_customInstructions None
                (snd (updateContent this GlobalContentIds_customInstructions None w))) = Inr ()
       \<and> files (snd (updateContent this GlobalContentIds_customInstructions None w))
            (resolved_path this w) = None
       \<and> files (snd (updateContent this GlobalContentIds_customInstructions None
                (snd (updateContent this GlobalContentIds_customInstructions None w)))) =
           files (snd (updateContent this GlobalContentIds_customInstructions None w))
       \<and> trace (snd (updateContent this GlobalContentIds_customInstructions None
                (snd (updateContent this GlobalContentIds_customInstructions None w)))) =
           trace (snd (updateContent this GlobalContentIds_customInstructions None w)) @
             [GetSettingsDirectoryPath (globalStorageUriFsPath this),
              Unlink (resolved_path this w), PostStateToWebview]"
proof -
  have b: "blank None" by (simp add: blank_def)
  obtain w1 where w1: "w1 = snd (updateContent this GlobalContentIds_customInstructions None w)"
    by simp
  have first: "fst (updateContent this GlobalContentIds_customInstructions None w) = Inr ()"
    and gone: "files w1 (resolved_path this w) = None"
    and same: "fault w1 = fault w" "resolved_path this w1 = resolved_path this w"
    using assms unfolding w1
    by (simp_all add: updateContent_delete [OF b] quiet_def Let_def resolved_path_def
        split: option.splits)
  have second: "updateContent this GlobalContentIds_customInstructions None w1 =
      (Inr (), w1\<lparr>trace := trace w1 @ [GetSettingsDirectoryPath (globalStorageUriFsPath this),
              Unlink (resolved_path this w), PostStateToWebview]\<rparr>)"
    using assms gone same
    by (simp add: updateContent_delete [OF b] quiet_def Let_def)
  show ?thesis
    using first gone second unfolding w1 by simp
qed

theorem delete_twice_never_raises_witness:
  "quiet (example_world [example_path \<mapsto> ''text''])
     [GetSettingsDirectoryPath (globalStorageUriFsPath example_manager),
      Unlink (resolved_path example_manager (example_world [example_path \<mapsto> ''text''])),
      PostStateToWebview]
   \<and> fst (updateContent example_manager ''customInstructions'' None
        (example_world [example_path \<mapsto> ''text''])) = Inr ()
   \<and> fst (updateContent example_manager ''customInstructions'' None
        (snd (updateContent example_manager ''customInstructions'' None
           (example_world [example_path \<mapsto> ''text''])))) = Inr ()
   \<and> files (snd (updateContent example_manager ''customInstructions'' None
        (example_world [example_path \<mapsto> ''text'']))) example_path = None"
proof -
  have b: "''customInstructions'' = GlobalContentIds_customInstructions"
    by (simp add: GlobalContentIds_customInstructions_def)
  have q: "quiet (example_world [example_path \<mapsto> ''text''])
     [GetSettingsDirectoryPath (globalStorageUriFsPath example_manager),
      Unlink (resolved_path example_manager (example_world [example_path \<mapsto> ''text''])),
      PostStateToWebview]"
    by (rule example_quiet)
  show ?thesis
    unfolding b using q delete_twice_never_raises [OF q] by (simp add: example_resolved)
qed

text \<open>
  C10: on the delete branch, an \<open>unlink\<close> rejected with an error whose code is not \<open>ENOENT\<close>
  is logged and raised again to the caller, and the call ends there: the three calls made are
  the provider, the \<open>unlink\<close> and the log, with no state push. On that branch the push is
  skipped on this path only: when \<open>unlink\<close> is rejected with \<open>ENOENT\<close> or not at all, the push
  is issued once.
\<close>

theorem failed_delete_skips_state_push:
  assumes "blank content"
      and "quiet w [GetSettingsDirectoryPath (globalStorageUriFsPath this)]"
  shows "(\<forall>e. fault w (Unlink (resolved_path this w)) = Some e \<and> err_code e \<noteq> Some ''ENOENT''
            \<longrightarrow> updateContent this GlobalContentIds_customInstructions content w =
                  (Inl e, w\<lparr>trace := trace w @
                     [GetSettingsDirectoryPath (globalStorageUriFsPath this),
                      Unlink (resolved_path this w),
                      Log (''Error deleting content file: '' @ err_message e)]\<rparr>)
                \<and> state_pushes (trace (snd (updateContent this
                      GlobalContentIds_customInstructions content w))) = state_pushes (trace w))
       \<and> ((\<forall>e. fault w (Unlink (resolved_path this w)) = Some e \<longrightarrow> err_code e = Some ''ENOENT'')
            \<longrightarrow> state_pushes (trace (snd (updateContent this
                    GlobalContentIds_customInstructions content w))) = state_pushes (trace w) + 1)"
  using assms
  by (auto simp: updateContent_delete quiet_def Let_def state_pushes_def split: option.splits)

theorem failed_delete_skips_state_push_witness:
  "blank None
   \<and> fault (readonly_world [example_path \<mapsto> ''text'']) (Unlink example_path) = Some eacces
   \<and> err_code eacces \<noteq> Some ''ENOENT''
   \<and> updateContent example_manager ''customInstructions'' None
        (readonly_world [example_path \<mapsto> ''text'']) =
      (Inl eacces, (readonly_world [example_path \<mapsto> ''text''])\<lparr>trace :=
         [GetSettingsDirectoryPath ''/storage'', Unlink example_path,
          Log ''Error deleting content file: EACCES: permission denied'']\<rparr>)
   \<and> state_pushes (trace (snd (updateContent example_manager ''customInstructions'' None
        (readonly_world [example_path \<mapsto> ''text''])))) = 0
   \<and> state_pushes (trace (snd (updateContent example_manager ''customInstructions'' None
        (example_world [example_path \<mapsto> ''text''])))) = 1"
proof -
  have b: "''customInstructions'' = GlobalContentIds_customInstructions"
    by (simp add: GlobalContentIds_customInstructions_def)
  have bl: "blank None" by (simp add: blank_def)
  have q1: "quiet (readonly_world [example_path \<mapsto> ''text''])
              [GetSettingsDirectoryPath (globalStorageUriFsPath example_manager)]"
    by (simp add: quiet_def readonly_fault)
  have q2: "quiet (example_world [example_path \<mapsto> ''text''])
              [GetSettingsDirectoryPath (globalStorageUriFsPath example_manager)]"
    by (rule example_quiet)
  have c: "err_code eacces \<noteq> Some ''ENOENT''" "err_message eacces = ''EACCES: permission denied''"
    by (simp_all add: eacces_def)
  have f: "fault (readonly_world [example_path \<mapsto> ''text'']) (Unlink example_path) = Some eacces"
    by (simp add: readonly_fault)
  have g: "globalStorageUriFsPath example_manager = ''/storage''"
    by (simp add: example_manager_def)
  show ?thesis
    unfolding b
    using bl c f failed_delete_skips_state_push [OF bl q1] failed_delete_skips_state_push [OF bl q2]
    by (simp add: example_resolved example_resolved_readonly example_fault example_trace
        readonly_trace g state_pushes_def)
qed

section \<open>Properties of useRefreshableContent\<close>

text \<open>
  Every timer runs the same callback, and running it twice is running it once: moving the
  clock on either fires nothing or resets the banner and drops the timers that were due.
\<close>

lemma setShowRefreshSuccess_twice:
  "setShowRefreshSuccess b (setShowRefreshSuccess b s) = setShowRefreshSuccess b s"
  by (simp add: setShowRefreshSuccess_def)

lemma fold_callbacks:
  "fold (\<lambda>x. setShowRefreshSuccess False) fired s =
     (if fired = [] then s else setShowRefreshSuccess False s)"
proof (induction fired arbitrary: s)
  case Nil
  show ?case by simp
next
  case (Cons x fired)
  then show ?case by (simp add: setShowRefreshSuccess_twice)
qed

lemma advance_cases:
  "advance d s =
     (if filter (due (now s + d)) (timers s) = []
      then s\<lparr>now := now s + d\<rparr>
      else setShowRefreshSuccess False
             (s\<lparr>now := now s + d, timers := filter (\<lambda>x. \<not> due (now s + d) x) (timers s)\<rparr>))"
proof -
  have "filter (due (now s + d)) (timers s) = [] \<Longrightarrow>
        filter (\<lambda>x. \<not> due (now s + d) x) (timers s) = timers s"
    by (induction "timers s") (auto simp: filter_empty_conv filter_id_conv)
  then show ?thesis
    by (simp add: advance_def Let_def fold_callbacks)
qed

lemma dispatch_success:
  assumes "bound_to cid s"
  shows "dispatchMessage (contentRefreshed cid True) s =
           s\<lparr>isRefreshing := False, showRefreshSuccess := True,
             timers := timers s @ [(nextTimer s, now s + 3000)],
             nextTimer := Suc (nextTimer s)\<rparr>"
  using assms
  by (simp add: bound_to_def dispatchMessage_def handleMessage_def contentRefreshed_def
      setIsRefreshing_def setShowRefreshSuccess_def setTimeout_def Let_def)

text \<open>Neither a render with another identifier nor the unmount touches a pending timer.\<close>

lemma render_keeps_timers: "timers (render cid s) = timers s"
  by (simp add: render_def effect_body_def effect_cleanup_def)

lemma unmount_keeps_timers: "timers (unmount s) = timers s"
  by (simp add: unmount_def effect_cleanup_def)

text \<open>
  The invariant of a mounted instance: it holds after \<open>mount\<close> and every event keeps it, so
  a mounted instance is bound to the identifier of its current render.
\<close>

lemma hook_inv_mount: "hook_inv (mount cid)"
  by (simp add: hook_inv_def mount_def effect_body_def)

lemma bound_to_mount: "bound_to cid (mount cid)"
  by (simp add: bound_to_def mount_def effect_body_def)

lemma hook_inv_step: "hook_inv s \<Longrightarrow> hook_inv (step e s)"
proof (cases e)
  case (Message m)
  assume "hook_inv s"
  with Message show ?thesis
    by (auto simp: hook_inv_def dispatchMessage_def handleMessage_def setIsRefreshing_def
        setShowRefreshSuccess_def setTimeout_def Let_def split: option.splits if_splits)
next
  case (Render cid)
  assume "hook_inv s"
  with Render show ?thesis
    by (auto simp: hook_inv_def render_def effect_body_def effect_cleanup_def)
next
  case Unmount
  then show ?thesis
    by (simp add: hook_inv_def unmount_def effect_cleanup_def)
next
  case (Advance d)
  assume "hook_inv s"
  with Advance show ?thesis
    by (auto simp: hook_inv_def advance_cases setShowRefreshSuccess_def)
next
  case RefreshAction
  assume "hook_inv s"
  with RefreshAction show ?thesis
    by (auto simp: hook_inv_def hook_refreshContent_def setIsRefreshing_def Let_def)
qed

lemma hook_inv_run: "hook_inv s \<Longrightarrow> hook_inv (run es s)"
  unfolding run_def by (induction es arbitrary: s) (simp_all add: hook_inv_step)

lemma mounted_is_bound: "hook_inv s \<Longrightarrow> mounted s \<Longrightarrow> bound_to (contentId s) s"
  by (simp add: hook_inv_def bound_to_def)

text \<open>
  C7: a coordinator bound to \<open>cid\<close> that receives a message for another identifier (or for
  none) keeps its whole state: \<open>isRefreshing\<close>, \<open>showRefreshSuccess\<close>, the timers and all else.
\<close>

theorem response_for_other_id_ignored:
  assumes "bound_to cid s" and "msg_contentId m \<noteq> Some cid"
  shows "dispatchMessage m s = s"
  using assms by (simp add: bound_to_def dispatchMessage_def handleMessage_def)

theorem response_for_other_id_ignored_witness:
  "bound_to ''customInstructions'' (hook_refreshContent (mount ''customInstructions''))
   \<and> msg_contentId (contentRefreshed ''otherContent'' True) \<noteq> Some ''customInstructions''
   \<and> isRefreshing (hook_refreshContent (mount ''customInstructions'')) = True
   \<and> dispatchMessage (contentRefreshed ''otherContent'' True)
        (hook_refreshContent (mount ''customInstructions'')) =
      hook_refreshContent (mount ''customInstructions'')"
proof -
  have b: "bound_to ''customInstructions'' (hook_refreshContent (mount ''customInstructions''))"
    by (simp add: bound_to_def hook_refreshContent_def mount_def effect_body_def
        setIsRefreshing_def Let_def)
  have m: "msg_contentId (contentRefreshed ''otherContent'' True) \<noteq> Some ''customInstructions''"
    by (simp add: contentRefreshed_def)
  have r: "isRefreshing (hook_refreshContent (mount ''customInstructions'')) = True"
    by (simp add: hook_refreshContent_def mount_def effect_body_def setIsRefreshing_def Let_def)
  show ?thesis
    using b m r response_for_other_id_ignored [OF b m] by simp
qed

text \<open>
  C6, as stated, fails: the banner is not always shown for 3000 ms after a success response.
  \<open>handleMessage\<close> leaves the timer of an earlier response pending. Bound to
  \<open>customInstructions\<close>, a success response at 0 ms and a second one at 2000 ms leave the
  timers due at 3000 and at 5000; at 3000 ms the first fires and resets \<open>showRefreshSuccess\<close>,
  1000 ms after the second response set it.
\<close>

theorem success_banner_reset_early_counterexample:
  "bound_to ''customInstructions''
     (run [Message (contentRefreshed ''customInstructions'' True), Advance 2000]
        (mount ''customInstructions''))
   \<and> now (run [Message (contentRefreshed ''customInstructions'' True), Advance 2000,
              Message (contentRefreshed ''customInstructions'' True)]
        (mount ''customInstructions'')) = 2000
   \<and> showRefreshSuccess
       (run [Message (contentRefreshed ''customInstructions'' True), Advance 2000,
             Message (contentRefreshed ''customInstructions'' True)]
          (mount ''customInstructions'')) = True
   \<and> timers
       (run [Message (contentRefreshed ''customInstructions'' True), Advance 2000,
             Message (contentRefreshed ''customInstructions'' True)]
          (mount ''customInstructions'')) = [(0, 3000), (1, 5000)]
   \<and> showRefreshSuccess
       (run [Message (contentRefreshed ''customInstructions'' True), Advance 2000,
             Message (contentRefreshed ''customInstructions'' True), Advance 1000]
          (mount ''customInstructions'')) = False
   \<and> now (run [Message (contentRefreshed ''customInstructions'' True), Advance 2000,
              Message (contentRefreshed ''customInstructions'' True), Advance 1000]
        (mount ''customInstructions'')) = 3000"
  by (simp add: run_def bound_to_def dispatchMessage_def handleMessage_def contentRefreshed_def
      setIsRefreshing_def setShowRefreshSuccess_def setTimeout_def Let_def mount_def
      effect_body_def advance_def due_def)

text \<open>
  C6, amended: a coordinator bound to \<open>cid\<close> that receives
  \<open>{type: "contentRefreshed", contentId: cid, success: true}\<close> sets \<open>isRefreshing\<close> to false and
  \<open>showRefreshSuccess\<close> to true and starts one timer, due 3000 ms later, changing nothing else.
  When the clock has moved on by 3000 ms, \<open>showRefreshSuccess\<close> is false again and nothing but it,
  the clock and the timers that fired has changed. Before that, provided no timer of an
  earlier response falls due, only the clock changes: the banner stays.
\<close>

theorem success_response_shows_banner_for_3000ms:
  assumes "bound_to cid s"
  shows "isRefreshing (dispatchMessage (contentRefreshed cid True) s) = False
       \<and> showRefreshSuccess (dispatchMessage (contentRefreshed cid True) s) = True
       \<and> dispatchMessage (contentRefreshed cid True) s =
           s\<lparr>isRefreshing := False, showRefreshSuccess := True,
             timers := timers s @ [(nextTimer s, now s + 3000)],
             nextTimer := Suc (nextTimer s)\<rparr>
       \<and> advance 3000 (dispatchMessage (contentRefreshed cid True) s) =
           (dispatchMessage (contentRefreshed cid True) s)
             \<lparr>now := now s + 3000,
              timers := filter (\<lambda>x. \<not> due (now s + 3000) x) (timers s),
              showRefreshSuccess := False\<rparr>
       \<and> (\<forall>d. d < 3000 \<and> filter (due (now s + d)) (timers s) = []
             \<longrightarrow> advance d (dispatchMessage (contentRefreshed cid True) s) =
                  (dispatchMessage (contentRefreshed cid True) s)\<lparr>now := now s + d\<rparr>)"
proof -
  have m: "mounted s" using assms by (simp add: bound_to_def)
  show ?thesis
    using m
    by (simp add: dispatch_success [OF assms] advance_cases due_def setShowRefreshSuccess_def)
qed

theorem success_response_shows_banner_for_3000ms_witness:
  "bound_to ''customInstructions'' (hook_refreshContent (mount ''customInstructions''))
   \<and> dispatchMessage (contentRefreshed ''customInstructions'' True)
        (hook_refreshContent (mount ''customInstructions'')) =
      (mount ''customInstructions'')
        \<lparr>isRefreshing := False, showRefreshSuccess := True, timers := [(0, 3000)], nextTimer := 1,
         posted := [\<lparr>wm_type = ''refreshContent'', wm_contentId = ''customInstructions''\<rparr>]\<rparr>
   \<and> showRefreshSuccess (advance 2999 (dispatchMessage (contentRefreshed ''customInstructions'' True)
        (hook_refreshContent (mount ''customInstructions'')))) = True
   \<and> advance 3000 (dispatchMessage (contentRefreshed ''customInstructions'' True)
        (hook_refreshContent (mount ''customInstructions''))) =
      (mount ''customInstructions'')
        \<lparr>isRefreshing := False, showRefreshSuccess := False, timers := [], nextTimer := 1,
         now := 3000,
         posted := [\<lparr>wm_type = ''refreshContent'', wm_contentId = ''customInstructions''\<rparr>]\<rparr>"
proof -
  let ?s = "hook_refreshContent (mount ''customInstructions'')"
  have b: "bound_to ''customInstructions'' ?s"
    by (simp add: bound_to_def hook_refreshContent_def mount_def effect_body_def
        setIsRefreshing_def Let_def)
  have s: "?s = (mount ''customInstructions'')
        \<lparr>isRefreshing := True,
         posted := [\<lparr>wm_type = ''refreshContent'', wm_contentId = ''customInstructions''\<rparr>]\<rparr>"
    by (simp add: hook_refreshContent_def mount_def effect_body_def setIsRefreshing_def Let_def)
  have t: "timers (mount ''customInstructions'') = []" "now (mount ''customInstructions'') = 0"
    "nextTimer (mount ''customInstructions'') = 0"
    by (simp_all add: mount_def effect_body_def)
  have ts: "timers ?s = []" "now ?s = 0" "nextTimer ?s = 0"
    by (simp_all add: s t)
  note th = success_response_shows_banner_for_3000ms [OF b]
  have d: "dispatchMessage (contentRefreshed ''customInstructions'' True) ?s =
      ?s\<lparr>isRefreshing := False, showRefreshSuccess := True,
        timers := timers ?s @ [(nextTimer ?s, now ?s + 3000)], nextTimer := Suc (nextTimer ?s)\<rparr>"
    using th by blast
  have a3: "advance 3000 (dispatchMessage (contentRefreshed ''customInstructions'' True) ?s) =
      (dispatchMessage (contentRefreshed ''customInstructions'' True) ?s)
        \<lparr>now := now ?s + 3000, timers := filter (\<lambda>x. \<not> due (now ?s + 3000) x) (timers ?s),
         showRefreshSuccess := False\<rparr>"
    using th by blast
  have "(2999::nat) < 3000 \<and> filter (due (now ?s + 2999)) (timers ?s) = []"
    by (simp add: ts)
  with th have a2: "advance 2999 (dispatchMessage (contentRefreshed ''customInstructions'' True) ?s) =
      (dispatchMessage (contentRefreshed ''customInstructions'' True) ?s)\<lparr>now := now ?s + 2999\<rparr>"
    by blast
  show ?thesis
    unfolding a2 a3 unfolding d unfolding ts using b by (simp add: s)
qed

text \<open>
  C1: the claim is that the pending timer is cancelled when the bound identifier changes or
  the component unmounts. The code does not do so: the closure that would clear the timer is
  returned by \<open>handleMessage\<close> to the event dispatch, which drops it, and the cleanup of the
  effect only removes the listener. Bound to \<open>customInstructions\<close>, after a success response,
  1000 ms and a render with \<open>otherContent\<close>, the banner still shows and the timer due at 3000
  is still pending; 2000 ms later it fires and resets \<open>showRefreshSuccess\<close>, after the
  rebinding. After an unmount in place of the render the timer is pending as well.
\<close>

theorem success_timer_survives_rebinding:
  "contentId (run [Message (contentRefreshed ''customInstructions'' True), Advance 1000,
                   Render ''otherContent''] (mount ''customInstructions'')) = ''otherContent''
   \<and> showRefreshSuccess (run [Message (contentRefreshed ''customInstructions'' True), Advance 1000,
                   Render ''otherContent''] (mount ''customInstructions'')) = True
   \<and> timers (run [Message (contentRefreshed ''customInstructions'' True), Advance 1000,
                   Render ''otherContent''] (mount ''customInstructions'')) = [(0, 3000)]
   \<and> showRefreshSuccess (run [Message (contentRefreshed ''customInstructions'' True), Advance 1000,
                   Render ''otherContent'', Advance 2000] (mount ''customInstructions'')) = False
   \<and> timers (run [Message (contentRefreshed ''customInstructions'' True), Advance 1000,
                   Unmount] (mount ''customInstructions'')) = [(0, 3000)]"
  by (simp add: run_def dispatchMessage_def handleMessage_def contentRefreshed_def
      setIsRefreshing_def setShowRefreshSuccess_def setTimeout_def Let_def mount_def
      effect_body_def effect_cleanup_def render_def unmount_def advance_def due_def)


end
